theory Spec2Isabelle
  imports Main
begin

section \<open>JavaScript values the extension relies on\<close>

subsection \<open>\<open>Map\<close>: insertion-ordered key/value store\<close>

text \<open>
  A JavaScript \<open>Map\<close> iterates in insertion order; \<open>set\<close> on a key that is already present
  replaces the value in place, on a new key it appends. The model is the list of entries
  in iteration order.
\<close>

type_synonym ('k, 'v) js_map = "('k \<times> 'v) list"

fun map_get :: "('k, 'v) js_map \<Rightarrow> 'k \<Rightarrow> 'v option" where
  "map_get [] k = None"
| "map_get ((k', v) # m) k = (if k' = k then Some v else map_get m k)"

fun map_set :: "'k \<Rightarrow> 'v \<Rightarrow> ('k, 'v) js_map \<Rightarrow> ('k, 'v) js_map" where
  "map_set k v [] = [(k, v)]"
| "map_set k v ((k', v') # m) = (if k' = k then (k, v) # m else (k', v') # map_set k v m)"

definition map_clear :: "('k, 'v) js_map \<Rightarrow> ('k, 'v) js_map" where
  "map_clear m = []"

definition map_entries :: "('k, 'v) js_map \<Rightarrow> ('k \<times> 'v) list" where
  "map_entries m = m"

subsection \<open>Strings\<close>

text \<open>\<open>String.prototype.toLowerCase\<close> on the ASCII letters; other bytes are kept.\<close>

definition toLowerChar :: "char \<Rightarrow> char" where
  "toLowerChar c =
     (let n = (of_char c :: nat) in if 65 \<le> n \<and> n \<le> 90 then char_of (n + 32) else c)"

definition toLowerCase :: "string \<Rightarrow> string" where
  "toLowerCase s = map toLowerChar s"

text \<open>\<open>String.prototype.includes\<close>: the argument occurs as a contiguous substring.\<close>

fun starts_with :: "string \<Rightarrow> string \<Rightarrow> bool" where
  "starts_with s [] = True"
| "starts_with [] (c # cs) = False"
| "starts_with (d # ds) (c # cs) = (d = c \<and> starts_with ds cs)"

fun str_includes :: "string \<Rightarrow> string \<Rightarrow> bool" where
  "str_includes [] sub = (sub = [])"
| "str_includes (c # cs) sub = (starts_with (c # cs) sub \<or> str_includes cs sub)"

section \<open>Entities of \<open>railway-api.ts\<close>\<close>

datatype status =
  BUILDING | DEPLOYING | SUCCESS | FAILED | CANCELLED | CRASHED | REMOVED | REMOVING

text \<open>The string literal each member of the union type stands for.\<close>

fun status_name :: "status \<Rightarrow> string" where
  "status_name BUILDING = ''BUILDING''"
| "status_name DEPLOYING = ''DEPLOYING''"
| "status_name SUCCESS = ''SUCCESS''"
| "status_name FAILED = ''FAILED''"
| "status_name CANCELLED = ''CANCELLED''"
| "status_name CRASHED = ''CRASHED''"
| "status_name REMOVED = ''REMOVED''"
| "status_name REMOVING = ''REMOVING''"

record RailwayProject =
  proj_id :: string
  proj_name :: string
  proj_description :: "string option"
  proj_createdAt :: string
  proj_updatedAt :: string

record RailwayService =
  svc_id :: string
  svc_name :: string
  svc_projectId :: string

record RailwayDeployment =
  dep_id :: string
  dep_status :: status
  dep_staticUrl :: "string option"
  dep_createdAt :: string
  dep_updatedAt :: string
  dep_serviceId :: string
  dep_environmentId :: string

record RailwayEnvironment =
  env_id :: string
  env_name :: string
  env_projectId :: string

section \<open>\<open>DeploymentTreeDataProvider\<close>\<close>

text \<open>
  What the provider does to the outside is kept as a trace, oldest entry first:
  the messages it shows through \<open>vscode.window\<close>, the calls it makes on the
  \<open>RailwayAPI\<close> object, the firing of \<open>_onDidChangeTreeData\<close>, and each invocation of
  \<open>notifyDeploymentStatusChange\<close> (the transition event: deployment id, previous status,
  current status).
\<close>

datatype notification =
  InformationMessage string "string list"
| WarningMessage string "string list"
| ErrorMessage string "string list"

datatype api_call =
  GetProjects
| GetProjectEnvironments string
| GetServices string
| GetDeployments string string

datatype event =
  StatusChange string string string
| Show notification
| ApiCall api_call
| TreeDataChanged

record provider =
  projects :: "RailwayProject list"
  environments :: "(string, RailwayEnvironment list) js_map"
  services :: "(string, RailwayService list) js_map"
  deployments :: "(string, RailwayDeployment list) js_map"
  deploymentStatuses :: "(string, string) js_map"
  trace :: "event list"

text \<open>The field initialisers of the class: every cache level and the status map empty.\<close>

definition new_provider :: provider where
  "new_provider =
     \<lparr>projects = [], environments = [], services = [], deployments = [],
      deploymentStatuses = [], trace = []\<rparr>"

definition emit :: "event \<Rightarrow> provider \<Rightarrow> provider" where
  "emit e st = st\<lparr>trace := trace st @ [e]\<rparr>"

definition refresh :: "provider \<Rightarrow> provider" where
  "refresh st = emit TreeDataChanged st"

text \<open>
  The message texts carry UTF-8 encoded pictographs and the wall-clock text
  \<open>new Date().toLocaleTimeString()\<close>, which is the parameter \<open>now\<close>.
\<close>

definition check_mark :: string where
  "check_mark = [CHR 0xE2, CHR 0x9C, CHR 0x85]"

definition cross_mark :: string where
  "cross_mark = [CHR 0xE2, CHR 0x9D, CHR 0x8C]"

definition warning_sign :: string where
  "warning_sign = [CHR 0xE2, CHR 0x9A, CHR 0xA0, CHR 0xEF, CHR 0xB8, CHR 0x8F]"

definition notifyDeploymentStatusChange ::
  "string \<Rightarrow> RailwayDeployment \<Rightarrow> string \<Rightarrow> string \<Rightarrow> provider \<Rightarrow> provider" where
  "notifyDeploymentStatusChange now deployment previousStatus currentStatus st =
     (let st1 = emit (StatusChange (dep_id deployment) previousStatus currentStatus) st;
          wasBuilding = (previousStatus \<in> set [''BUILDING'', ''DEPLOYING''])
      in if wasBuilding then
           if currentStatus = ''SUCCESS'' then
             emit (Show (InformationMessage
               (check_mark @ '' Deployment successful! ('' @ now @ '')'') [''View Logs''])) st1
           else if currentStatus = ''FAILED'' \<or> currentStatus = ''CRASHED'' then
             emit (Show (ErrorMessage
               (cross_mark @ '' Deployment '' @ toLowerCase currentStatus @ ''! ('' @ now @ '')'')
               [''View Logs''])) st1
           else if currentStatus = ''CANCELLED'' then
             emit (Show (WarningMessage
               (warning_sign @ '' Deployment cancelled ('' @ now @ '')'') [])) st1
           else st1
         else st1)"

text \<open>
  The body of the inner loop of \<open>checkDeploymentStatuses\<close>. \<open>previousStatus &&\<close> is false
  for \<open>undefined\<close> (no entry) and for the empty string.
\<close>

definition observe :: "string \<Rightarrow> provider \<Rightarrow> RailwayDeployment \<Rightarrow> provider" where
  "observe now st deployment =
     (let previousStatus = map_get (deploymentStatuses st) (dep_id deployment);
          currentStatus = status_name (dep_status deployment);
          st1 = st\<lparr>deploymentStatuses :=
                    map_set (dep_id deployment) currentStatus (deploymentStatuses st)\<rparr>
      in case previousStatus of
           None \<Rightarrow> st1
         | Some prev \<Rightarrow>
             if prev \<noteq> [] \<and> prev \<noteq> currentStatus
             then notifyDeploymentStatusChange now deployment prev currentStatus st1
             else st1)"

definition checkDeploymentStatuses :: "string \<Rightarrow> provider \<Rightarrow> provider" where
  "checkDeploymentStatuses now st =
     foldl (\<lambda>s (key, deploymentList). foldl (observe now) s deploymentList)
       st (map_entries (deployments st))"

text \<open>The callback \<open>startAutoRefresh\<close> hands to \<open>setInterval\<close>: one tree-poll tick.\<close>

definition tick :: "string \<Rightarrow> provider \<Rightarrow> provider" where
  "tick now st = refresh (checkDeploymentStatuses now st)"

definition clearCache :: "provider \<Rightarrow> provider" where
  "clearCache st =
     refresh (st\<lparr>projects := [],
                 environments := map_clear (environments st),
                 services := map_clear (services st),
                 deployments := map_clear (deployments st)\<rparr>)"

subsection \<open>\<open>getChildren\<close>: the read-through use of the cache\<close>

text \<open>
  A tree item is identified by its \<open>itemType\<close> and \<open>data\<close>. The placeholder shown when
  there are no projects has item type \<open>project\<close> and no data. The data of an environment
  item is \<open>{...env, projectId}\<close>; the data of a service item is the service with the
  \<open>environmentId\<close> of the parent item added. Labels, icons, tooltips and commands of the
  items are rendering and are left out.
\<close>

datatype element =
  ProjectItem RailwayProject
| NoProjectsItem
| EnvironmentItem RailwayEnvironment
| ServiceItem RailwayService string
| DeploymentItem RailwayDeployment

text \<open>
  What the four fetch operations of the \<open>RailwayAPI\<close> object resolve to at the time of the
  call. They resolve to a list on every path (failures become the empty list).
\<close>

record api =
  getProjects_result :: "RailwayProject list"
  getProjectEnvironments_result :: "string \<Rightarrow> RailwayEnvironment list"
  getServices_result :: "string \<Rightarrow> RailwayService list"
  getDeployments_result :: "string \<Rightarrow> string \<Rightarrow> RailwayDeployment list"

definition deployments_key :: "string \<Rightarrow> string \<Rightarrow> string" where
  "deployments_key serviceId environmentId = serviceId @ ''-'' @ environmentId"

fun getChildren :: "api \<Rightarrow> element option \<Rightarrow> provider \<Rightarrow> element list \<times> provider" where
  "getChildren a None st =
     (let st1 = (emit (ApiCall GetProjects) st)\<lparr>projects := getProjects_result a\<rparr>
      in if length (projects st1) = 0 then ([NoProjectsItem], st1)
         else (map ProjectItem (projects st1), st1))"
| "getChildren a (Some (ProjectItem project)) st =
     (let projectId = proj_id project in
      case map_get (environments st) projectId of
        Some envs \<Rightarrow>
          (map (\<lambda>env. EnvironmentItem (env\<lparr>env_projectId := projectId\<rparr>)) envs, st)
      | None \<Rightarrow>
          (let envs = getProjectEnvironments_result a projectId;
               st1 = (emit (ApiCall (GetProjectEnvironments projectId)) st)
                       \<lparr>environments := map_set projectId envs (environments st)\<rparr>
           in (map (\<lambda>env. EnvironmentItem (env\<lparr>env_projectId := projectId\<rparr>)) envs, st1)))"
| "getChildren a (Some (EnvironmentItem env)) st =
     (let projectId = env_projectId env in
      case map_get (services st) projectId of
        Some projectServices \<Rightarrow>
          (map (\<lambda>service. ServiceItem service (env_id env)) projectServices, st)
      | None \<Rightarrow>
          (let projectServices = getServices_result a projectId;
               st1 = (emit (ApiCall (GetServices projectId)) st)
                       \<lparr>services := map_set projectId projectServices (services st)\<rparr>
           in (map (\<lambda>service. ServiceItem service (env_id env)) projectServices, st1)))"
| "getChildren a (Some (ServiceItem service environmentId)) st =
     (let key = deployments_key (svc_id service) environmentId in
      case map_get (deployments st) key of
        Some serviceDeployments \<Rightarrow> (map DeploymentItem serviceDeployments, st)
      | None \<Rightarrow>
          (let serviceDeployments = getDeployments_result a (svc_id service) environmentId;
               st1 = (emit (ApiCall (GetDeployments (svc_id service) environmentId)) st)
                       \<lparr>deployments := map_set key serviceDeployments (deployments st)\<rparr>
           in (map DeploymentItem serviceDeployments, st1)))"
| "getChildren a (Some NoProjectsItem) st = ([], st)"
| "getChildren a (Some (DeploymentItem deployment)) st = ([], st)"

section \<open>\<open>LogViewerPanel\<close>: the log auto-refresh timer\<close>

text \<open>
  The interval timers of the log viewer that are running (set with \<open>setInterval\<close> and not
  yet cleared), by handle. A handle is a \<open>NodeJS.Timeout\<close> object, so it is truthy and
  \<open>if (this.autoRefreshInterval)\<close> tests whether the field is set.
\<close>

record timers =
  running :: "nat list"
  nextHandle :: nat

definition setInterval :: "timers \<Rightarrow> nat \<times> timers" where
  "setInterval tm =
     (nextHandle tm, tm\<lparr>running := running tm @ [nextHandle tm], nextHandle := Suc (nextHandle tm)\<rparr>)"

definition clearInterval :: "nat \<Rightarrow> timers \<Rightarrow> timers" where
  "clearInterval t tm = tm\<lparr>running := removeAll t (running tm)\<rparr>"

record LogViewerPanel =
  autoRefreshInterval :: "nat option"
  posted :: "string list"

text \<open>The constructor leaves \<open>autoRefreshInterval\<close> undefined.\<close>

definition new_panel :: LogViewerPanel where
  "new_panel = \<lparr>autoRefreshInterval = None, posted = []\<rparr>"

definition toggleAutoRefresh :: "LogViewerPanel \<Rightarrow> timers \<Rightarrow> LogViewerPanel \<times> timers" where
  "toggleAutoRefresh this tm =
     (case autoRefreshInterval this of
        Some t \<Rightarrow>
          (this\<lparr>autoRefreshInterval := None, posted := posted this @ [''autoRefreshStopped'']\<rparr>,
           clearInterval t tm)
      | None \<Rightarrow>
          (let (t, tm1) = setInterval tm
           in (this\<lparr>autoRefreshInterval := Some t,
                    posted := posted this @ [''autoRefreshStarted'']\<rparr>, tm1)))"

text \<open>
  The extension host: the static \<open>LogViewerPanel.currentPanel\<close> and the timers. Webview
  messages and the dispose event are delivered to the panel held in \<open>currentPanel\<close>:
  \<open>dispose\<close> unsets the field and disposes the subscriptions of the panel, among them
  the message handler, and \<open>createOrShow\<close> builds a panel only when the field is unset.
\<close>

record host =
  currentPanel :: "LogViewerPanel option"
  host_timers :: timers

definition new_host :: "nat \<Rightarrow> host" where
  "new_host n = \<lparr>currentPanel = None, host_timers = \<lparr>running = [], nextHandle = n\<rparr>\<rparr>"

definition createOrShow :: "host \<Rightarrow> host" where
  "createOrShow h =
     (case currentPanel h of
        Some p \<Rightarrow> h
      | None \<Rightarrow> h\<lparr>currentPanel := Some new_panel\<rparr>)"

definition dispose :: "host \<Rightarrow> host" where
  "dispose h =
     (case currentPanel h of
        None \<Rightarrow> h
      | Some this \<Rightarrow>
          (let h1 = h\<lparr>currentPanel := None\<rparr>
           in case autoRefreshInterval this of
                Some t \<Rightarrow> h1\<lparr>host_timers := clearInterval t (host_timers h1)\<rparr>
              | None \<Rightarrow> h1))"

datatype action = CreateOrShow | ToggleAutoRefresh | Dispose

fun step :: "host \<Rightarrow> action \<Rightarrow> host" where
  "step h CreateOrShow = createOrShow h"
| "step h ToggleAutoRefresh =
     (case currentPanel h of
        None \<Rightarrow> h
      | Some this \<Rightarrow>
          (let (this1, tm1) = toggleAutoRefresh this (host_timers h)
           in h\<lparr>currentPanel := Some this1, host_timers := tm1\<rparr>))"
| "step h Dispose = dispose h"

definition run :: "host \<Rightarrow> action list \<Rightarrow> host" where
  "run h as = foldl step h as"

section \<open>\<open>RailwayAPI\<close>: the fetch operations\<close>

subsection \<open>Response bodies and exceptions\<close>

text \<open>
  A response body is whatever axios parsed: any JSON value, or a string when the body is
  not JSON. \<open>JUndefined\<close> is the value of a property that is not there. Numbers are only
  tested for truthiness, so integers stand for them. An object is the list of its own
  properties, the first entry for a key being the property.
\<close>

datatype json =
  JUndefined
| JNull
| JBool bool
| JNum int
| JStr string
| JArr "json list"
| JObj "(string \<times> json) list"

text \<open>
  A thrown value: its \<open>name\<close>, its \<open>message\<close>, and for a request that was answered with a
  status outside 2xx the \<open>response\<close> (status and body). The message of a \<open>TypeError\<close> is
  the engine's; nothing below depends on its wording.
\<close>

datatype exn = Exn (exn_name: string) (exn_message: string) (exn_response: "(int \<times> json) option")

definition type_error :: "string \<Rightarrow> exn" where
  "type_error msg = Exn ''TypeError'' msg None"

fun truthy :: "json \<Rightarrow> bool" where
  "truthy JUndefined = False"
| "truthy JNull = False"
| "truthy (JBool b) = b"
| "truthy (JNum n) = (n \<noteq> 0)"
| "truthy (JStr s) = (s \<noteq> [])"
| "truthy (JArr xs) = True"
| "truthy (JObj kvs) = True"

text \<open>\<open>v.k\<close> for a name \<open>k\<close> that no built-in prototype defines: it throws on \<open>null\<close> and
  \<open>undefined\<close>.\<close>

fun js_prop :: "json \<Rightarrow> string \<Rightarrow> exn + json" where
  "js_prop JUndefined k = Inl (type_error ''Cannot read properties of undefined'')"
| "js_prop JNull k = Inl (type_error ''Cannot read properties of null'')"
| "js_prop (JObj kvs) k = Inr (case map_of kvs k of Some v \<Rightarrow> v | None \<Rightarrow> JUndefined)"
| "js_prop v k = Inr JUndefined"

text \<open>\<open>v?.k\<close>.\<close>

definition js_opt :: "json \<Rightarrow> string \<Rightarrow> json" where
  "js_opt v k = (case js_prop v k of Inl e \<Rightarrow> JUndefined | Inr w \<Rightarrow> w)"

text \<open>\<open>v[0]\<close> for a truthy \<open>v\<close>.\<close>

fun index0 :: "json \<Rightarrow> json" where
  "index0 (JArr xs) = (case xs of [] \<Rightarrow> JUndefined | x # _ \<Rightarrow> x)"
| "index0 (JStr s) = (case s of [] \<Rightarrow> JUndefined | c # _ \<Rightarrow> JStr [c])"
| "index0 (JObj kvs) = (case map_of kvs ''0'' of Some v \<Rightarrow> v | None \<Rightarrow> JUndefined)"
| "index0 v = JUndefined"

text \<open>\<open>v.toLowerCase()\<close> for a truthy \<open>v\<close>: only a string has the method.\<close>

fun js_toLowerCase :: "json \<Rightarrow> exn + string" where
  "js_toLowerCase (JStr s) = Inr (toLowerCase s)"
| "js_toLowerCase v = Inl (type_error ''toLowerCase is not a function'')"

text \<open>\<open>v.map(f)\<close> for a truthy \<open>v\<close>, where \<open>f\<close> may throw: only an array has the method.\<close>

fun map_throwing :: "('a \<Rightarrow> exn + 'b) \<Rightarrow> 'a list \<Rightarrow> exn + 'b list" where
  "map_throwing f [] = Inr []"
| "map_throwing f (x # xs) =
     (case f x of
        Inl e \<Rightarrow> Inl e
      | Inr y \<Rightarrow> (case map_throwing f xs of Inl e \<Rightarrow> Inl e | Inr ys \<Rightarrow> Inr (y # ys)))"

fun js_map_call :: "json \<Rightarrow> (json \<Rightarrow> exn + json) \<Rightarrow> exn + json" where
  "js_map_call (JArr xs) f =
     (case map_throwing f xs of Inl e \<Rightarrow> Inl e | Inr ys \<Rightarrow> Inr (JArr ys))"
| "js_map_call v f = Inl (type_error ''map is not a function'')"




subsection \<open>Requests and what the client does to the outside\<close>

datatype query =
  universalQuery
| personalQuery
| environmentsQuery string
| servicesQuery string
| deploymentsQuery string string int
| alternativeQuery string string
| logsQuery nat string int

text \<open>
  The outcome of \<open>apiClient.post\<close> for a request: the promise rejects with a thrown value,
  or resolves with a response whose \<open>data\<close> is the body.
\<close>

type_synonym reply = "exn + json"

datatype api_effect = Post query | Shown notification

text \<open>
  A fetch operation yields what it did, in order, and how its promise settles
  (\<open>Inl\<close>: rejected, \<open>Inr\<close>: resolved with the value).
\<close>

type_synonym outcome = "api_effect list \<times> (exn + json)"

definition did :: "api_effect list \<Rightarrow> outcome \<Rightarrow> outcome" where
  "did es r = (es @ fst r, snd r)"

text \<open>\<open>${error.message || error}\<close>: an error with an empty message prints as its name.\<close>

definition error_text :: "exn \<Rightarrow> string" where
  "error_text e = (if exn_message e \<noteq> [] then exn_message e else exn_name e)"

subsection \<open>\<open>getProjects\<close>\<close>

definition universal_projects :: "json \<Rightarrow> outcome" where
  "universal_projects data =
     (let edges = js_opt (js_opt (js_opt data ''data'') ''projects'') ''edges'' in
      if truthy edges then ([], js_map_call edges (\<lambda>edge. js_prop edge ''node''))
      else ([Shown (ErrorMessage
               ''No projects found. Make sure your token has access to projects.'' [])],
            Inr (JArr [])))"

definition getProjects_try :: "(query \<Rightarrow> reply) \<Rightarrow> outcome" where
  "getProjects_try post =
     did [Post universalQuery]
      (case post universalQuery of
         Inl e \<Rightarrow> ([], Inl e)
       | Inr data \<Rightarrow>
          (case js_prop data ''errors'' of
             Inl e \<Rightarrow> ([], Inl e)
           | Inr errors \<Rightarrow>
               if truthy errors then
                 did [Post personalQuery]
                  (case post personalQuery of
                     Inl e \<Rightarrow> ([], Inl e)
                   | Inr data2 \<Rightarrow>
                      (case js_prop data2 ''errors'' of
                         Inl e \<Rightarrow> ([], Inl e)
                       | Inr errors2 \<Rightarrow>
                           if truthy errors2 then
                             (let m = js_opt (index0 errors2) ''message'';
                                  errorMsg = (if truthy m then m else JStr ''Unknown error'')
                              in case js_toLowerCase errorMsg of
                                   Inl e \<Rightarrow> ([], Inl e)
                                 | Inr lower \<Rightarrow>
                                     if \<not> str_includes lower ''not authorized'' then
                                       ([Shown (ErrorMessage (''Railway API error: '' @
                                           (case errorMsg of JStr t \<Rightarrow> t | _ \<Rightarrow> [])) [])],
                                        Inr (JArr []))
                                     else ([], Inr (JArr [])))
                           else
                             (let edges = js_opt (js_opt (js_opt (js_opt data2 ''data'') ''me'')
                                            ''projects'') ''edges''
                              in if truthy edges
                                 then ([], js_map_call edges (\<lambda>edge. js_prop edge ''node''))
                                 else universal_projects data2)))
               else universal_projects data))"

definition getProjects_catch :: "exn \<Rightarrow> outcome" where
  "getProjects_catch error =
     (let status = map_option fst (exn_response error) in
      if status = Some 401 \<or> status = Some 403 then
        ([Shown (ErrorMessage
            ''Railway API authentication failed. Please check your API token.'' [])],
         Inr (JArr []))
      else if (case exn_response error of
                 Some (st, JStr body) \<Rightarrow> body \<noteq> [] \<and> str_includes body ''<html''
               | _ \<Rightarrow> False) then
        ([Shown (ErrorMessage
            ''Railway API returned an error page. Please check your API token and try again.''
            [])],
         Inr (JArr []))
      else
        ([Shown (ErrorMessage (''Failed to fetch projects: '' @ error_text error) [])],
         Inr (JArr [])))"

definition getProjects :: "(query \<Rightarrow> reply) \<Rightarrow> outcome" where
  "getProjects post =
     (case getProjects_try post of
        (es, Inr v) \<Rightarrow> (es, Inr v)
      | (es, Inl error) \<Rightarrow> did es (getProjects_catch error))"

subsection \<open>\<open>getProjectEnvironments\<close> and \<open>getServices\<close>\<close>





subsection \<open>\<open>getDeployments\<close>\<close>





subsection \<open>\<open>getDeploymentLogs\<close>\<close>





section \<open>Notions the properties are stated with\<close>

subsection \<open>Transition events and notifications of the provider\<close>

definition is_change_of :: "string \<Rightarrow> event \<Rightarrow> bool" where
  "is_change_of d e = (case e of StatusChange i p c \<Rightarrow> i = d | _ \<Rightarrow> False)"

text \<open>How many transition events the provider has emitted for the deployment id \<open>d\<close>.\<close>

definition transitions_of :: "string \<Rightarrow> provider \<Rightarrow> nat" where
  "transitions_of d st = length (filter (is_change_of d) (trace st))"

definition shown :: "provider \<Rightarrow> notification list" where
  "shown st = concat (map (\<lambda>e. case e of Show n \<Rightarrow> [n] | _ \<Rightarrow> []) (trace st))"

definition api_calls :: "provider \<Rightarrow> api_call list" where
  "api_calls st = concat (map (\<lambda>e. case e of ApiCall c \<Rightarrow> [c] | _ \<Rightarrow> []) (trace st))"

text \<open>The number of adjacent pairs of a sequence whose two members differ.\<close>

definition adjacent_changes :: "'a list \<Rightarrow> nat" where
  "adjacent_changes ss = length (filter (\<lambda>(a, b). a \<noteq> b) (zip ss (tl ss)))"

text \<open>
  A run of tree-poll ticks. Between two ticks the deployments level of the cache may have
  been emptied and filled again, so each tick comes with the clock text and the content
  of that level it finds.
\<close>

fun run_ticks ::
  "provider \<Rightarrow> (string \<times> (string, RailwayDeployment list) js_map) list \<Rightarrow> provider" where
  "run_ticks st [] = st"
| "run_ticks st ((now, cache) # rest) =
     run_ticks (tick now (st\<lparr>deployments := cache\<rparr>)) rest"

text \<open>The deployments the ticks visit, in the order of the visits.\<close>

definition visited ::
  "(string \<times> (string, RailwayDeployment list) js_map) list \<Rightarrow> RailwayDeployment list" where
  "visited ticks = concat (map (\<lambda>(now, cache). concat (map snd cache)) ticks)"

definition observed_statuses :: "string \<Rightarrow> RailwayDeployment list \<Rightarrow> status list" where
  "observed_statuses d xs = map dep_status (filter (\<lambda>x. dep_id x = d) xs)"

text \<open>Every recorded status is a non-empty string; the recorded status of an id, if any.\<close>

definition statuses_wf :: "provider \<Rightarrow> bool" where
  "statuses_wf st = (\<forall>k v. map_get (deploymentStatuses st) k = Some v \<longrightarrow> v \<noteq> [])"

definition known :: "provider \<Rightarrow> string \<Rightarrow> string list" where
  "known st d = (case map_get (deploymentStatuses st) d of None \<Rightarrow> [] | Some v \<Rightarrow> [v])"

text \<open>A deployment to run the provider on.\<close>

definition deployment1 :: "status \<Rightarrow> RailwayDeployment" where
  "deployment1 s =
     \<lparr>dep_id = ''d1'', dep_status = s, dep_staticUrl = None,
      dep_createdAt = ''2024-01-01T00:00:00Z'', dep_updatedAt = ''2024-01-01T00:00:00Z'',
      dep_serviceId = ''svc1'', dep_environmentId = ''env1''\<rparr>"

subsection \<open>The timer of the log viewer\<close>

text \<open>The running timers are exactly the one the current panel holds, if it holds one.\<close>

definition timer_inv :: "host \<Rightarrow> bool" where
  "timer_inv h =
     (running (host_timers h) =
        (case currentPanel h of
           None \<Rightarrow> []
         | Some p \<Rightarrow> (case autoRefreshInterval p of None \<Rightarrow> [] | Some t \<Rightarrow> [t])))"

subsection \<open>What the fetch operations resolve with\<close>

text \<open>
  The result of each operation, said without exceptions. A request that threw and a body
  that carries a truthy \<open>errors\<close> give the empty list. Otherwise the operation reads the
  value at the path of its edges. A list there gives one entity per edge: the properties
  of the node of the edge with the ids of the parents added, whatever the node holds. An
  edge that is \<open>null\<close> or \<open>undefined\<close> makes the whole result the empty list, and so does a
  value that is no list.
\<close>

definition errors_present :: "json \<Rightarrow> bool" where
  "errors_present body = truthy (js_opt body ''errors'')"









text \<open>
  The two ways a reply tells \<open>getProjects\<close> that the credential is rejected: the request
  is answered with status 401 or 403, or the body carries errors whose first message
  contains \<open>not authorized\<close> in any letter case.
\<close>

definition http_status :: "reply \<Rightarrow> int option" where
  "http_status r = (case r of Inl e \<Rightarrow> map_option fst (exn_response e) | Inr body \<Rightarrow> None)"

definition unauthorized_http :: "reply \<Rightarrow> bool" where
  "unauthorized_http r = (http_status r = Some 401 \<or> http_status r = Some 403)"

definition unauthorized_graphql :: "reply \<Rightarrow> bool" where
  "unauthorized_graphql r =
     (case r of
        Inl e \<Rightarrow> False
      | Inr body \<Rightarrow>
          errors_present body \<and>
          (case js_opt (index0 (js_opt body ''errors'')) ''message'' of
             JStr m \<Rightarrow> str_includes (toLowerCase m) ''not authorized''
           | _ \<Rightarrow> False))"

definition graphql_errors :: "reply \<Rightarrow> bool" where
  "graphql_errors r = (case r of Inl e \<Rightarrow> False | Inr body \<Rightarrow> errors_present body)"

definition shown_by :: "outcome \<Rightarrow> notification list" where
  "shown_by r = concat (map (\<lambda>e. case e of Shown n \<Rightarrow> [n] | _ \<Rightarrow> []) (fst r))"

definition auth_failed_message :: notification where
  "auth_failed_message =
     ErrorMessage ''Railway API authentication failed. Please check your API token.'' []"

text \<open>Replies to run the client on.\<close>

definition unauthorized_body :: json where
  "unauthorized_body = JObj [(''errors'', JArr [JObj [(''message'', JStr ''Not Authorized'')]])]"

definition status_401 :: reply where
  "status_401 =
     Inl (Exn ''AxiosError'' ''Request failed with status code 401''
            (Some (401, JStr ''Unauthorized'')))"






text \<open>Entities and a client to run \<open>getChildren\<close> on, and a cache that holds them.\<close>

definition project1 :: RailwayProject where
  "project1 =
     \<lparr>proj_id = ''p1'', proj_name = ''shop'', proj_description = None,
      proj_createdAt = ''2024-01-01T00:00:00Z'', proj_updatedAt = ''2024-01-01T00:00:00Z''\<rparr>"

definition environment1 :: RailwayEnvironment where
  "environment1 = \<lparr>env_id = ''env1'', env_name = ''production'', env_projectId = ''p1''\<rparr>"

definition service1 :: RailwayService where
  "service1 = \<lparr>svc_id = ''svc1'', svc_name = ''web'', svc_projectId = ''p1''\<rparr>"

definition api1 :: api where
  "api1 =
     \<lparr>getProjects_result = [project1],
      getProjectEnvironments_result = (\<lambda>projectId. []),
      getServices_result = (\<lambda>projectId. [service1]),
      getDeployments_result = (\<lambda>serviceId environmentId. [deployment1 BUILDING])\<rparr>"

definition filled_provider :: provider where
  "filled_provider =
     new_provider
       \<lparr>environments := [(''p1'', [])],
        services := [(''p1'', [service1])],
        deployments := [(''svc1-env1'', [deployment1 SUCCESS])]\<rparr>"

section \<open>Properties of the provider\<close>

subsection \<open>The \<open>Map\<close> model and the status strings\<close>

lemma map_get_set: "map_get (map_set k v m) k' = (if k' = k then Some v else map_get m k')"
  by (induction m) auto

lemma status_name_inj: "status_name a = status_name b \<longleftrightarrow> a = b"
  by (cases a; cases b) simp_all

lemma status_name_nonempty: "status_name a \<noteq> []"
  by (cases a) simp_all

lemma lower_failed: "toLowerCase ''FAILED'' = ''failed''"
  by code_simp

lemma lower_crashed: "toLowerCase ''CRASHED'' = ''crashed''"
  by code_simp

subsection \<open>Counting adjacent changes\<close>

lemma adjacent_changes_simps:
  "adjacent_changes [] = 0"
  "adjacent_changes [x] = 0"
  "adjacent_changes (x # y # zs) = (if x \<noteq> y then 1 else 0) + adjacent_changes (y # zs)"
  by (simp_all add: adjacent_changes_def)

lemma adjacent_changes_map_inj:
  assumes "\<And>a b. f a = f b \<longleftrightarrow> a = b"
  shows "adjacent_changes (map f xs) = adjacent_changes xs"
proof (induction xs rule: induct_list012)
  case (3 x y zs)
  then show ?case using assms by (simp add: adjacent_changes_simps)
qed (simp_all add: adjacent_changes_simps)

lemma adjacent_changes_known: "adjacent_changes (known st d) = 0"
  by (simp add: known_def adjacent_changes_simps split: option.split)

lemma observed_statuses_append:
  "observed_statuses d (xs @ ys) = observed_statuses d xs @ observed_statuses d ys"
  by (simp add: observed_statuses_def)

subsection \<open>One observation\<close>

lemma transitions_of_emit:
  "transitions_of d (emit e st) = transitions_of d st + (if is_change_of d e then 1 else 0)"
  by (simp add: transitions_of_def emit_def)

lemma shown_emit: "shown (emit e st) = shown st @ (case e of Show n \<Rightarrow> [n] | _ \<Rightarrow> [])"
  by (simp add: shown_def emit_def)

lemma api_calls_emit:
  "api_calls (emit e st) = api_calls st @ (case e of ApiCall c \<Rightarrow> [c] | _ \<Rightarrow> [])"
  by (simp add: api_calls_def emit_def)

lemma deploymentStatuses_emit: "deploymentStatuses (emit e st) = deploymentStatuses st"
  by (simp add: emit_def)

lemma deployments_emit: "deployments (emit e st) = deployments st"
  by (simp add: emit_def)

lemma transitions_of_notify:
  "transitions_of d (notifyDeploymentStatusChange now x p c st) =
     transitions_of d st + (if dep_id x = d then 1 else 0)"
  by (simp add: notifyDeploymentStatusChange_def Let_def transitions_of_emit is_change_of_def)

lemma deploymentStatuses_notify:
  "deploymentStatuses (notifyDeploymentStatusChange now x p c st) = deploymentStatuses st"
  by (simp add: notifyDeploymentStatusChange_def Let_def deploymentStatuses_emit)

lemma deployments_notify:
  "deployments (notifyDeploymentStatusChange now x p c st) = deployments st"
  by (simp add: notifyDeploymentStatusChange_def Let_def deployments_emit)

lemma api_calls_notify:
  "api_calls (notifyDeploymentStatusChange now x p c st) = api_calls st"
  by (simp add: notifyDeploymentStatusChange_def Let_def api_calls_emit)

lemma transitions_of_statuses_update:
  "transitions_of d (st\<lparr>deploymentStatuses := m\<rparr>) = transitions_of d st"
  by (simp add: transitions_of_def)

lemma api_calls_statuses_update: "api_calls (st\<lparr>deploymentStatuses := m\<rparr>) = api_calls st"
  by (simp add: api_calls_def)

lemma deploymentStatuses_observe:
  "deploymentStatuses (observe now st x) =
     map_set (dep_id x) (status_name (dep_status x)) (deploymentStatuses st)"
  by (simp add: observe_def Let_def deploymentStatuses_notify split: option.split)

lemma deployments_observe: "deployments (observe now st x) = deployments st"
  by (simp add: observe_def Let_def deployments_notify split: option.split)

lemma api_calls_observe: "api_calls (observe now st x) = api_calls st"
  by (simp add: observe_def Let_def api_calls_notify api_calls_statuses_update
      split: option.split)

lemma transitions_of_observe:
  "transitions_of d (observe now st x) =
     transitions_of d st +
       (case map_get (deploymentStatuses st) (dep_id x) of
          None \<Rightarrow> 0
        | Some p \<Rightarrow> if p \<noteq> [] \<and> p \<noteq> status_name (dep_status x) \<and> dep_id x = d then 1 else 0)"
  by (simp add: observe_def Let_def transitions_of_notify transitions_of_statuses_update
      split: option.split)

lemma statuses_wf_observe: "statuses_wf st \<Longrightarrow> statuses_wf (observe now st x)"
  by (simp add: statuses_wf_def deploymentStatuses_observe map_get_set status_name_nonempty)

text \<open>
  One observation, with the statuses still to come as \<open>rest\<close>: the events emitted so far
  plus the changes ahead stay in balance.
\<close>

lemma observe_step:
  assumes "statuses_wf st"
  shows "transitions_of d (observe now st x) +
           adjacent_changes (known (observe now st x) d @ rest) =
         transitions_of d st +
           adjacent_changes (known st d @ map status_name (observed_statuses d [x]) @ rest)"
proof (cases "dep_id x = d")
  case False
  then show ?thesis
    by (simp add: transitions_of_observe known_def deploymentStatuses_observe map_get_set
        observed_statuses_def split: option.split)
next
  case True
  show ?thesis
  proof (cases "map_get (deploymentStatuses st) d")
    case None
    then show ?thesis using True
      by (simp add: transitions_of_observe known_def deploymentStatuses_observe map_get_set
          observed_statuses_def)
  next
    case (Some p)
    then have "p \<noteq> []" using assms by (simp add: statuses_wf_def)
    then show ?thesis using True Some
      by (simp add: transitions_of_observe known_def deploymentStatuses_observe map_get_set
          observed_statuses_def adjacent_changes_simps)
  qed
qed

subsection \<open>The loops of \<open>checkDeploymentStatuses\<close> and a run of ticks\<close>

lemma observe_fold:
  "statuses_wf st \<Longrightarrow>
   statuses_wf (foldl (observe now) st xs) \<and>
   transitions_of d (foldl (observe now) st xs) +
     adjacent_changes (known (foldl (observe now) st xs) d @ rest) =
   transitions_of d st +
     adjacent_changes (known st d @ map status_name (observed_statuses d xs) @ rest)"
proof (induction xs arbitrary: st)
  case Nil
  then show ?case by (simp add: observed_statuses_def)
next
  case (Cons x xs)
  have wf: "statuses_wf (observe now st x)" using Cons.prems by (rule statuses_wf_observe)
  have "observed_statuses d (x # xs) = observed_statuses d [x] @ observed_statuses d xs"
    using observed_statuses_append [of d "[x]" xs] by simp
  then show ?case
    using Cons.IH [OF wf]
      observe_step [OF Cons.prems, of d now x "map status_name (observed_statuses d xs) @ rest"]
    by simp
qed

lemma foldl_nested:
  "foldl (\<lambda>s (key, l). foldl f s l) st m = foldl f st (concat (map snd m))"
  by (induction m arbitrary: st) auto

lemma checkDeploymentStatuses_flat:
  "checkDeploymentStatuses now st = foldl (observe now) st (concat (map snd (deployments st)))"
  by (simp add: checkDeploymentStatuses_def map_entries_def foldl_nested)

lemma observe_fold_frame:
  "deployments (foldl (observe now) st xs) = deployments st \<and>
   api_calls (foldl (observe now) st xs) = api_calls st"
  by (induction xs arbitrary: st) (simp_all add: deployments_observe api_calls_observe)

text \<open>A tick reads the cache and asks the client nothing.\<close>

lemma tick_keeps_cache:
  "deployments (tick now st) = deployments st \<and> api_calls (tick now st) = api_calls st"
  by (simp add: tick_def refresh_def checkDeploymentStatuses_flat deployments_emit
      api_calls_emit observe_fold_frame)

lemma tick_step:
  assumes "statuses_wf st"
  shows "statuses_wf (tick now st) \<and>
   transitions_of d (tick now st) + adjacent_changes (known (tick now st) d @ rest) =
   transitions_of d st +
     adjacent_changes
       (known st d @
        map status_name (observed_statuses d (concat (map snd (deployments st)))) @ rest)"
  using observe_fold [OF assms, of now "concat (map snd (deployments st))" d rest]
  by (simp add: tick_def refresh_def checkDeploymentStatuses_flat statuses_wf_def
      deploymentStatuses_emit transitions_of_emit known_def is_change_of_def)

lemma run_ticks_count:
  "statuses_wf st \<Longrightarrow>
   transitions_of d (run_ticks st ticks) + adjacent_changes (known (run_ticks st ticks) d) =
   transitions_of d st +
     adjacent_changes (known st d @ map status_name (observed_statuses d (visited ticks)))"
proof (induction ticks arbitrary: st)
  case Nil
  then show ?case by (simp add: visited_def observed_statuses_def)
next
  case (Cons t ticks)
  obtain now cache where t: "t = (now, cache)" by (cases t)
  let ?st = "st\<lparr>deployments := cache\<rparr>"
  have wf0: "statuses_wf ?st" using Cons.prems by (simp add: statuses_wf_def)
  have k0: "known ?st d = known st d" by (simp add: known_def)
  have t0: "transitions_of d ?st = transitions_of d st" by (simp add: transitions_of_def)
  have v: "observed_statuses d (visited ((now, cache) # ticks)) =
           observed_statuses d (concat (map snd cache)) @ observed_statuses d (visited ticks)"
    by (simp add: visited_def observed_statuses_append)
  from tick_step [OF wf0, of now d "map status_name (observed_statuses d (visited ticks))"]
  have wf1: "statuses_wf (tick now ?st)"
    and step: "transitions_of d (tick now ?st) +
       adjacent_changes
         (known (tick now ?st) d @ map status_name (observed_statuses d (visited ticks))) =
       transitions_of d ?st +
       adjacent_changes
         (known ?st d @ map status_name (observed_statuses d (concat (map snd cache))) @
          map status_name (observed_statuses d (visited ticks)))"
    by simp_all
  show ?case using Cons.IH [OF wf1] step by (simp add: t v k0 t0)
qed

lemma transitions_count:
  "transitions_of d (run_ticks new_provider ticks) =
     adjacent_changes (observed_statuses d (visited ticks))"
proof -
  have wf: "statuses_wf new_provider" by (simp add: statuses_wf_def new_provider_def)
  have "transitions_of d (run_ticks new_provider ticks) =
        adjacent_changes (map status_name (observed_statuses d (visited ticks)))"
    using run_ticks_count [OF wf, of d ticks]
    by (simp add: adjacent_changes_known) (simp add: known_def new_provider_def transitions_of_def)
  then show ?thesis by (simp add: adjacent_changes_map_inj [of status_name] status_name_inj)
qed

subsection \<open>Transition events\<close>

text \<open>
  Claim C1. Start from a new provider and let any number of ticks run
  \<open>checkDeploymentStatuses\<close>, each on whatever the deployments level of the cache holds
  at that tick. For every deployment id, the number of transition events emitted for it
  (invocations of \<open>notifyDeploymentStatusChange\<close>) equals the number of adjacent pairs of
  differing statuses in the sequence of statuses observed for that id. An observation of
  an id that has no recorded status emits no event, whatever the status; and observing the
  same status of an id twice in a row emits at most one event.
\<close>

theorem transition_events_count:
  "transitions_of d (run_ticks new_provider ticks) =
     adjacent_changes (observed_statuses d (visited ticks))
   \<and> (map_get (deploymentStatuses st) (dep_id x) = None \<longrightarrow>
        transitions_of d (observe now st x) = transitions_of d st)
   \<and> (dep_id y = dep_id x \<and> dep_status y = dep_status x \<longrightarrow>
        transitions_of d (observe now' (observe now st x) y) \<le> transitions_of d st + 1)"
proof (intro conjI impI)
  show "transitions_of d (run_ticks new_provider ticks) =
     adjacent_changes (observed_statuses d (visited ticks))"
    by (rule transitions_count)
next
  assume "map_get (deploymentStatuses st) (dep_id x) = None"
  then show "transitions_of d (observe now st x) = transitions_of d st"
    by (simp add: transitions_of_observe)
next
  assume "dep_id y = dep_id x \<and> dep_status y = dep_status x"
  then show "transitions_of d (observe now' (observe now st x) y) \<le> transitions_of d st + 1"
    by (simp add: transitions_of_observe deploymentStatuses_observe map_get_set
        split: option.split)
qed

text \<open>
  The deployment \<open>d1\<close> seen as Building, Building, Success in three ticks: one event. Seen
  first as Failed by a new provider: no event; seen as Failed again: still none.
\<close>

theorem transition_events_count_witness:
  "transitions_of ''d1'' (run_ticks new_provider
      [(''10:00:00'', [(''svc1-env1'', [deployment1 BUILDING])]),
       (''10:00:30'', [(''svc1-env1'', [deployment1 BUILDING])]),
       (''10:01:00'', [(''svc1-env1'', [deployment1 SUCCESS])])]) = 1
   \<and> map_get (deploymentStatuses new_provider) (dep_id (deployment1 FAILED)) = None
   \<and> transitions_of ''d1'' (observe ''10:00:00'' new_provider (deployment1 FAILED)) = 0
   \<and> dep_id (deployment1 FAILED) = dep_id (deployment1 FAILED)
   \<and> transitions_of ''d1''
       (observe ''10:00:30'' (observe ''10:00:00'' new_provider (deployment1 FAILED))
          (deployment1 FAILED)) \<le> 1"
  using transition_events_count [of "''d1''"
      "[(''10:00:00'', [(''svc1-env1'', [deployment1 BUILDING])]),
        (''10:00:30'', [(''svc1-env1'', [deployment1 BUILDING])]),
        (''10:01:00'', [(''svc1-env1'', [deployment1 SUCCESS])])]"
      new_provider "deployment1 FAILED" "''10:00:00''" "deployment1 FAILED" "''10:00:30''"]
  by (simp add: visited_def observed_statuses_def deployment1_def adjacent_changes_def
      new_provider_def transitions_of_def)

subsection \<open>What a tick does\<close>

text \<open>
  Claim C2. The claim has every tick fetch each cached deployment again and store the
  result before observing it. Run on a cache that holds the deployment \<open>d1\<close> as Building,
  the tick leaves the cache as it was and its whole trace is the refresh signal: it calls
  no fetch operation of the client, so what it observes is the cached status.
\<close>

theorem tick_performs_no_fetch:
  "deployments (tick ''10:00:30''
      (new_provider\<lparr>deployments := [(''svc1-env1'', [deployment1 BUILDING])]\<rparr>)) =
     [(''svc1-env1'', [deployment1 BUILDING])]
   \<and> trace (tick ''10:00:30''
      (new_provider\<lparr>deployments := [(''svc1-env1'', [deployment1 BUILDING])]\<rparr>)) =
     [TreeDataChanged]
   \<and> api_calls (tick ''10:00:30''
      (new_provider\<lparr>deployments := [(''svc1-env1'', [deployment1 BUILDING])]\<rparr>)) = []"
  by (simp add: tick_def checkDeploymentStatuses_def map_entries_def observe_def Let_def
      new_provider_def refresh_def emit_def api_calls_def)

subsection \<open>Which transitions are shown\<close>

text \<open>
  Claim C5, as stated, has a notification for every transition out of Building or
  Deploying. The transition from Building to Deploying is shown nothing.
\<close>

theorem notification_policy_counterexample:
  "BUILDING \<in> {BUILDING, DEPLOYING} \<and>
   shown (notifyDeploymentStatusChange ''10:00:30'' (deployment1 DEPLOYING)
            (status_name BUILDING) (status_name DEPLOYING) new_provider) = []"
  by (simp add: notifyDeploymentStatusChange_def shown_emit Let_def)
     (simp add: shown_def new_provider_def)

text \<open>
  Claim C5, amended. A transition event from status \<open>f\<close> to status \<open>t\<close> produces a
  notification if and only if \<open>f\<close> is Building or Deploying and \<open>t\<close> is Success, Failed,
  Crashed or Cancelled. For Success it is an information message offering \<open>View Logs\<close>,
  for Failed and Crashed an error message offering \<open>View Logs\<close>, for Cancelled a warning
  message without action. A deployment seen as Building, then Deploying, then Success
  in three ticks of a new provider is shown exactly one notification, the success message
  of the third tick.
\<close>

theorem notification_policy:
  "shown (notifyDeploymentStatusChange now x (status_name f) (status_name t) st) =
     shown st @
       (if f \<in> {BUILDING, DEPLOYING} \<and> t = SUCCESS then
          [InformationMessage (check_mark @ '' Deployment successful! ('' @ now @ '')'')
             [''View Logs'']]
        else if f \<in> {BUILDING, DEPLOYING} \<and> t \<in> {FAILED, CRASHED} then
          [ErrorMessage (cross_mark @ '' Deployment '' @ toLowerCase (status_name t) @
             ''! ('' @ now @ '')'') [''View Logs'']]
        else if f \<in> {BUILDING, DEPLOYING} \<and> t = CANCELLED then
          [WarningMessage (warning_sign @ '' Deployment cancelled ('' @ now @ '')'') []]
        else [])
   \<and> ((shown (notifyDeploymentStatusChange now x (status_name f) (status_name t) st) \<noteq>
         shown st) =
        (f \<in> {BUILDING, DEPLOYING} \<and> t \<in> {SUCCESS, FAILED, CRASHED, CANCELLED}))
   \<and> shown (run_ticks new_provider
        [(n1, [(k, [x\<lparr>dep_status := BUILDING\<rparr>])]),
         (n2, [(k, [x\<lparr>dep_status := DEPLOYING\<rparr>])]),
         (n3, [(k, [x\<lparr>dep_status := SUCCESS\<rparr>])])]) =
       [InformationMessage (check_mark @ '' Deployment successful! ('' @ n3 @ '')'')
          [''View Logs'']]"
proof (intro conjI)
  show "shown (notifyDeploymentStatusChange now x (status_name f) (status_name t) st) =
     shown st @
       (if f \<in> {BUILDING, DEPLOYING} \<and> t = SUCCESS then
          [InformationMessage (check_mark @ '' Deployment successful! ('' @ now @ '')'')
             [''View Logs'']]
        else if f \<in> {BUILDING, DEPLOYING} \<and> t \<in> {FAILED, CRASHED} then
          [ErrorMessage (cross_mark @ '' Deployment '' @ toLowerCase (status_name t) @
             ''! ('' @ now @ '')'') [''View Logs'']]
        else if f \<in> {BUILDING, DEPLOYING} \<and> t = CANCELLED then
          [WarningMessage (warning_sign @ '' Deployment cancelled ('' @ now @ '')'') []]
        else [])"
    by (cases f; cases t) (simp_all add: notifyDeploymentStatusChange_def shown_emit Let_def)
next
  show "(shown (notifyDeploymentStatusChange now x (status_name f) (status_name t) st) \<noteq>
         shown st) =
        (f \<in> {BUILDING, DEPLOYING} \<and> t \<in> {SUCCESS, FAILED, CRASHED, CANCELLED})"
    by (cases f; cases t) (simp_all add: notifyDeploymentStatusChange_def shown_emit Let_def)
next
  show "shown (run_ticks new_provider
        [(n1, [(k, [x\<lparr>dep_status := BUILDING\<rparr>])]),
         (n2, [(k, [x\<lparr>dep_status := DEPLOYING\<rparr>])]),
         (n3, [(k, [x\<lparr>dep_status := SUCCESS\<rparr>])])]) =
       [InformationMessage (check_mark @ '' Deployment successful! ('' @ n3 @ '')'')
          [''View Logs'']]"
    by (simp add: tick_def checkDeploymentStatuses_def map_entries_def observe_def Let_def
        new_provider_def refresh_def notifyDeploymentStatusChange_def emit_def shown_def)
qed

text \<open>A failed build is shown as an error, and the three ticks of \<open>d1\<close> show one success.\<close>

theorem notification_policy_witness:
  "shown (notifyDeploymentStatusChange ''10:01:00'' (deployment1 FAILED)
            ''BUILDING'' ''FAILED'' new_provider) =
     [ErrorMessage (cross_mark @ '' Deployment failed! (10:01:00)'') [''View Logs'']]
   \<and> shown (run_ticks new_provider
        [(''10:00:00'', [(''svc1-env1'', [deployment1 BUILDING])]),
         (''10:00:30'', [(''svc1-env1'', [deployment1 DEPLOYING])]),
         (''10:01:00'', [(''svc1-env1'', [deployment1 SUCCESS])])]) =
       [InformationMessage (check_mark @ '' Deployment successful! (10:01:00)'')
          [''View Logs'']]"
  using notification_policy [of "''10:01:00''" "deployment1 FAILED" BUILDING FAILED
      new_provider "''10:00:00''" "''svc1-env1''" "''10:00:30''" "''10:01:00''"]
  by (simp add: lower_failed deployment1_def) (simp add: shown_def new_provider_def)

subsection \<open>The cache\<close>

text \<open>
  Claim C7. After \<open>clearCache\<close> the project list is the empty list a new provider starts
  with, and a get on any key of the environments, the services and the deployments level
  finds nothing: all levels are emptied together.
\<close>

theorem clearCache_empties_all_levels:
  "projects (clearCache st) = projects new_provider
   \<and> map_get (environments (clearCache st)) projectId = None
   \<and> map_get (services (clearCache st)) projectId' = None
   \<and> map_get (deployments (clearCache st)) (deployments_key serviceId environmentId) = None"
  by (simp add: clearCache_def refresh_def emit_def map_clear_def new_provider_def)

text \<open>
  Claim C9. On every level of the cache, the list that \<open>getChildren\<close> stores under a key
  is the list a following get of that key returns, the empty list included. At the root
  the fetched projects are stored in the project slot and are the projects shown. For a
  project, an environment and a service item whose key is not in the map of its level,
  \<open>getChildren\<close> stores the fetched list under that key; and whenever the map holds a list
  under the key, \<open>getChildren\<close> returns the items of exactly that list and leaves the
  provider as it is, whatever the client would answer.
\<close>

theorem cache_put_get:
  "(getProjects_result a = ps \<longrightarrow>
      projects (snd (getChildren a None st)) = ps
      \<and> fst (getChildren a None st) =
          (if ps = [] then [NoProjectsItem] else map ProjectItem ps))
   \<and> (map_get (environments st) (proj_id project) = None
       \<and> getProjectEnvironments_result a (proj_id project) = envs \<longrightarrow>
      map_get (environments (snd (getChildren a (Some (ProjectItem project)) st)))
        (proj_id project) = Some envs)
   \<and> (map_get (environments st') (proj_id project) = Some envs' \<longrightarrow>
      getChildren a (Some (ProjectItem project)) st' =
        (map (\<lambda>env. EnvironmentItem (env\<lparr>env_projectId := proj_id project\<rparr>)) envs', st'))
   \<and> (map_get (services st) (env_projectId env) = None
       \<and> getServices_result a (env_projectId env) = svcs \<longrightarrow>
      map_get (services (snd (getChildren a (Some (EnvironmentItem env)) st)))
        (env_projectId env) = Some svcs)
   \<and> (map_get (services st') (env_projectId env) = Some svcs' \<longrightarrow>
      getChildren a (Some (EnvironmentItem env)) st' =
        (map (\<lambda>service. ServiceItem service (env_id env)) svcs', st'))
   \<and> (map_get (deployments st) (deployments_key (svc_id service) environmentId) = None
       \<and> getDeployments_result a (svc_id service) environmentId = deps \<longrightarrow>
      map_get (deployments (snd (getChildren a (Some (ServiceItem service environmentId)) st)))
        (deployments_key (svc_id service) environmentId) = Some deps)
   \<and> (map_get (deployments st') (deployments_key (svc_id service) environmentId) =
         Some deps' \<longrightarrow>
      getChildren a (Some (ServiceItem service environmentId)) st' =
        (map DeploymentItem deps', st'))"
  by (simp add: Let_def emit_def map_get_set)

text \<open>
  A new provider asked for the children of the root, of project \<open>p1\<close>, of its environment
  and of service \<open>svc1\<close> stores what the client answers, the empty list of environments
  among it; a provider that holds lists under these keys returns their items.
\<close>

theorem cache_put_get_witness:
  "getProjects_result api1 = [project1]
   \<and> projects (snd (getChildren api1 None new_provider)) = [project1]
   \<and> fst (getChildren api1 None new_provider) = [ProjectItem project1]
   \<and> map_get (environments new_provider) (proj_id project1) = None
   \<and> getProjectEnvironments_result api1 (proj_id project1) = []
   \<and> map_get (environments (snd (getChildren api1 (Some (ProjectItem project1)) new_provider)))
        (proj_id project1) = Some []
   \<and> map_get (environments filled_provider) (proj_id project1) = Some []
   \<and> getChildren api1 (Some (ProjectItem project1)) filled_provider = ([], filled_provider)
   \<and> map_get (services new_provider) (env_projectId environment1) = None
   \<and> getServices_result api1 (env_projectId environment1) = [service1]
   \<and> map_get (services (snd (getChildren api1 (Some (EnvironmentItem environment1))
        new_provider))) (env_projectId environment1) = Some [service1]
   \<and> map_get (services filled_provider) (env_projectId environment1) = Some [service1]
   \<and> getChildren api1 (Some (EnvironmentItem environment1)) filled_provider =
        ([ServiceItem service1 ''env1''], filled_provider)
   \<and> map_get (deployments new_provider) (deployments_key (svc_id service1) ''env1'') = None
   \<and> getDeployments_result api1 (svc_id service1) ''env1'' = [deployment1 BUILDING]
   \<and> map_get (deployments (snd (getChildren api1 (Some (ServiceItem service1 ''env1''))
        new_provider))) (deployments_key (svc_id service1) ''env1'') =
        Some [deployment1 BUILDING]
   \<and> map_get (deployments filled_provider) (deployments_key (svc_id service1) ''env1'') =
        Some [deployment1 SUCCESS]
   \<and> getChildren api1 (Some (ServiceItem service1 ''env1'')) filled_provider =
        ([DeploymentItem (deployment1 SUCCESS)], filled_provider)"
proof -
  have h: "getProjects_result api1 = [project1]"
    "map_get (environments new_provider) (proj_id project1) = None"
    "getProjectEnvironments_result api1 (proj_id project1) = []"
    "map_get (environments filled_provider) (proj_id project1) = Some []"
    "map_get (services new_provider) (env_projectId environment1) = None"
    "getServices_result api1 (env_projectId environment1) = [service1]"
    "map_get (services filled_provider) (env_projectId environment1) = Some [service1]"
    "map_get (deployments new_provider) (deployments_key (svc_id service1) ''env1'') = None"
    "getDeployments_result api1 (svc_id service1) ''env1'' = [deployment1 BUILDING]"
    "map_get (deployments filled_provider) (deployments_key (svc_id service1) ''env1'') =
        Some [deployment1 SUCCESS]"
    by (simp_all add: api1_def new_provider_def filled_provider_def project1_def
        environment1_def service1_def deployments_key_def)
  have e: "env_id environment1 = ''env1''" by (simp add: environment1_def)
  show ?thesis
    using h cache_put_get [of api1 "[project1]" new_provider project1 "[]" filled_provider
        "[]" environment1 "[service1]" "[service1]" service1 "''env1''"
        "[deployment1 BUILDING]" "[deployment1 SUCCESS]"]
    by (simp add: e)
qed

text \<open>
  Claim C10. \<open>clearCache\<close> leaves the map of last known statuses as it is: every
  deployment id has the same recorded status after the clear as before it.
\<close>

theorem clearCache_keeps_statuses:
  "deploymentStatuses (clearCache st) = deploymentStatuses st
   \<and> map_get (deploymentStatuses (clearCache st)) d = map_get (deploymentStatuses st) d"
  by (simp add: clearCache_def refresh_def emit_def)

section \<open>Properties of the log viewer\<close>

lemma timer_inv_new: "timer_inv (new_host n)"
  by (simp add: timer_inv_def new_host_def)

lemma timer_inv_step: "timer_inv h \<Longrightarrow> timer_inv (step h a)"
  by (cases a)
     (auto simp: timer_inv_def createOrShow_def dispose_def toggleAutoRefresh_def new_panel_def
        setInterval_def clearInterval_def Let_def split: option.splits)

lemma timer_inv_foldl: "timer_inv h \<Longrightarrow> timer_inv (foldl step h as)"
  by (induction as arbitrary: h) (simp_all add: timer_inv_step)

lemma timer_inv_run: "timer_inv (run (new_host n) as)"
  by (simp add: run_def timer_inv_foldl timer_inv_new)

lemma timer_inv_le1: "timer_inv h \<Longrightarrow> length (running (host_timers h)) \<le> 1"
  by (simp add: timer_inv_def split: option.splits)

lemma run_snoc: "run h (as @ [a]) = step (run h as) a"
  by (simp add: run_def)

text \<open>
  Claim C8. Whatever sequence of opening the log view, toggling auto-refresh and
  disposing the panel the host goes through, at most one log auto-refresh timer is
  running. Disposal leaves none running. A toggle starts a timer only when none is
  running. From a panel without a timer, toggling on leaves one timer, on and off none,
  on, off and on again exactly one.
\<close>

theorem single_log_timer:
  "length (running (host_timers (run (new_host n) as))) \<le> 1
   \<and> running (host_timers (run (new_host n) (as @ [Dispose]))) = []
   \<and> (length (running (host_timers (run (new_host n) as))) <
        length (running (host_timers (run (new_host n) (as @ [ToggleAutoRefresh]))))
      \<longrightarrow> running (host_timers (run (new_host n) as)) = [])
   \<and> (currentPanel (run (new_host n) as) = Some p \<and> autoRefreshInterval p = None \<longrightarrow>
        length (running (host_timers (run (new_host n) (as @ [ToggleAutoRefresh])))) = 1
      \<and> length (running (host_timers (run (new_host n)
           (as @ [ToggleAutoRefresh, ToggleAutoRefresh])))) = 0
      \<and> length (running (host_timers (run (new_host n)
           (as @ [ToggleAutoRefresh, ToggleAutoRefresh, ToggleAutoRefresh])))) = 1)"
proof (intro conjI impI)
  let ?h = "run (new_host n) as"
  have inv: "timer_inv ?h" by (rule timer_inv_run)
  show "length (running (host_timers ?h)) \<le> 1" using inv by (rule timer_inv_le1)
  show "running (host_timers (run (new_host n) (as @ [Dispose]))) = []"
    using inv by (auto simp: run_snoc timer_inv_def dispose_def clearInterval_def Let_def
        split: option.splits)
  {
    assume "length (running (host_timers ?h)) <
        length (running (host_timers (run (new_host n) (as @ [ToggleAutoRefresh]))))"
    then show "running (host_timers ?h) = []"
      using inv by (auto simp: run_snoc timer_inv_def toggleAutoRefresh_def clearInterval_def
          setInterval_def Let_def split: option.splits)
  }
  {
    assume a: "currentPanel ?h = Some p \<and> autoRefreshInterval p = None"
    have r3: "run (new_host n) (as @ [ToggleAutoRefresh, ToggleAutoRefresh, ToggleAutoRefresh]) =
          step (step (step ?h ToggleAutoRefresh) ToggleAutoRefresh) ToggleAutoRefresh"
      and r2: "run (new_host n) (as @ [ToggleAutoRefresh, ToggleAutoRefresh]) =
          step (step ?h ToggleAutoRefresh) ToggleAutoRefresh"
      by (simp_all add: run_def)
    show "length (running (host_timers (run (new_host n) (as @ [ToggleAutoRefresh])))) = 1"
      using inv a by (simp add: run_snoc timer_inv_def toggleAutoRefresh_def setInterval_def)
    show "length (running (host_timers (run (new_host n)
           (as @ [ToggleAutoRefresh, ToggleAutoRefresh])))) = 0"
      using inv a unfolding r2
      by (simp add: timer_inv_def toggleAutoRefresh_def setInterval_def clearInterval_def)
    show "length (running (host_timers (run (new_host n)
           (as @ [ToggleAutoRefresh, ToggleAutoRefresh, ToggleAutoRefresh])))) = 1"
      using inv a unfolding r3
      by (simp add: timer_inv_def toggleAutoRefresh_def setInterval_def clearInterval_def)
  }
qed

text \<open>
  The view is opened and auto-refresh toggled on and off: no timer runs, the next toggle
  starts one, and after on, off, on the one timer with handle 3 runs.
\<close>

theorem single_log_timer_witness:
  "length (running (host_timers (run (new_host 1)
       [CreateOrShow, ToggleAutoRefresh, ToggleAutoRefresh]))) <
     length (running (host_timers (run (new_host 1)
       ([CreateOrShow, ToggleAutoRefresh, ToggleAutoRefresh] @ [ToggleAutoRefresh]))))
   \<and> running (host_timers (run (new_host 1)
        [CreateOrShow, ToggleAutoRefresh, ToggleAutoRefresh])) = []
   \<and> currentPanel (run (new_host 1) [CreateOrShow, ToggleAutoRefresh, ToggleAutoRefresh]) =
       Some \<lparr>autoRefreshInterval = None,
             posted = [''autoRefreshStarted'', ''autoRefreshStopped'']\<rparr>
   \<and> running (host_timers (run (new_host 1)
        ([CreateOrShow, ToggleAutoRefresh, ToggleAutoRefresh] @
         [ToggleAutoRefresh, ToggleAutoRefresh, ToggleAutoRefresh]))) = [3]"
  using single_log_timer [of 1 "[CreateOrShow, ToggleAutoRefresh, ToggleAutoRefresh]"
      "\<lparr>autoRefreshInterval = None, posted = [''autoRefreshStarted'', ''autoRefreshStopped'']\<rparr>"]
  by (simp add: run_def new_host_def createOrShow_def new_panel_def toggleAutoRefresh_def
      setInterval_def clearInterval_def)

section \<open>Properties of the client\<close>

subsection \<open>The result of a fetch operation is read off its \<open>try\<close> block\<close>





lemma resolves_projects: "\<exists>v. snd (getProjects post) = Inr v"
  by (cases "getProjects_try post" rule: prod.exhaust)
     (auto simp: getProjects_def getProjects_catch_def did_def Let_def split: sum.splits)

subsection \<open>Property access\<close>








subsection \<open>Mapping the edges\<close>





subsection \<open>\<open>getProjectEnvironments\<close> and \<open>getServices\<close>\<close>



subsection \<open>\<open>getDeployments\<close>\<close>





subsection \<open>\<open>getDeploymentLogs\<close>\<close>









subsection \<open>What the four operations resolve with\<close>




subsection \<open>\<open>getProjects\<close> and a rejected credential\<close>

lemma str_includes_nonempty: "str_includes s sub \<Longrightarrow> sub \<noteq> [] \<Longrightarrow> s \<noteq> []"
  by (cases s) auto

lemma toLowerCase_nonempty: "toLowerCase m \<noteq> [] \<Longrightarrow> m \<noteq> []"
  by (auto simp: toLowerCase_def)

lemma getProjects_http_unauthorized:
  assumes "unauthorized_http (post universalQuery)"
  shows "getProjects post =
           ([Post universalQuery, Shown auth_failed_message], Inr (JArr []))"
  using assms
  by (auto simp: unauthorized_http_def http_status_def getProjects_def getProjects_try_def
      getProjects_catch_def did_def auth_failed_message_def split: sum.splits)

lemma getProjects_graphql_unauthorized:
  assumes "graphql_errors (post universalQuery)" "unauthorized_graphql (post personalQuery)"
  shows "getProjects post = ([Post universalQuery, Post personalQuery], Inr (JArr []))"
proof -
  obtain body where b: "post universalQuery = Inr body" "errors_present body"
    using assms(1) by (auto simp: graphql_errors_def split: sum.splits)
  obtain body2 m where b2: "post personalQuery = Inr body2" "errors_present body2"
    "js_opt (index0 (js_opt body2 ''errors'')) ''message'' = JStr m"
    "str_includes (toLowerCase m) ''not authorized''"
    using assms(2) by (auto simp: unauthorized_graphql_def split: sum.splits json.splits)
  have m: "m \<noteq> []"
    using b2(4) str_includes_nonempty [of "toLowerCase m" "''not authorized''"]
      toLowerCase_nonempty [of m] by auto
  obtain errors where e: "js_prop body ''errors'' = Inr errors" "truthy errors"
    using b(2) by (cases "js_prop body ''errors''") (auto simp: errors_present_def js_opt_def)
  obtain errors2 where e2: "js_prop body2 ''errors'' = Inr errors2" "truthy errors2"
    "js_opt body2 ''errors'' = errors2"
    using b2(2) by (cases "js_prop body2 ''errors''") (auto simp: errors_present_def js_opt_def)
  show ?thesis
    using b(1) b2(1) e e2 b2(3) b2(4) m
    by (simp add: getProjects_def getProjects_try_def did_def Let_def)
qed

lemma getProjects_posts_first: "hd (fst (getProjects post)) = Post universalQuery"
  by (cases "getProjects_try post" rule: prod.exhaust)
     (auto simp: getProjects_def getProjects_try_def did_def split: sum.splits)

text \<open>
  Claim C4, as stated, has exactly one error shown for every rejection of the credential.
  When both project queries are answered with the error \<open>Not Authorized\<close>, \<open>getProjects\<close>
  resolves with the empty list and shows nothing.
\<close>

theorem getProjects_unauthorized_counterexample:
  "unauthorized_graphql (Inr unauthorized_body)
   \<and> snd (getProjects (\<lambda>q. Inr unauthorized_body)) = Inr (JArr [])
   \<and> shown_by (getProjects (\<lambda>q. Inr unauthorized_body)) = []"
  by code_simp

text \<open>
  Claim C4, amended. When the request of \<open>getProjects\<close> is answered with status 401 or
  403, it resolves with the empty list and shows one error message, that authentication
  failed, for that call. When the first query is answered with errors and the second with
  errors whose first message contains \<open>not authorized\<close>, it resolves with the empty list
  and shows no message. It keeps no record of either: every call posts the first query
  again.
\<close>

theorem getProjects_unauthorized:
  "(unauthorized_http (post universalQuery) \<longrightarrow>
      getProjects post = ([Post universalQuery, Shown auth_failed_message], Inr (JArr [])))
   \<and> (graphql_errors (post universalQuery) \<and> unauthorized_graphql (post personalQuery) \<longrightarrow>
      getProjects post = ([Post universalQuery, Post personalQuery], Inr (JArr [])))
   \<and> hd (fst (getProjects post)) = Post universalQuery"
  using getProjects_http_unauthorized [of post] getProjects_graphql_unauthorized [of post]
    getProjects_posts_first [of post]
  by blast

text \<open>
  A remote that answers 401: the empty list and the one message. A remote that answers
  \<open>Not Authorized\<close> in the body: the empty list after both queries.
\<close>

theorem getProjects_unauthorized_witness:
  "unauthorized_http ((\<lambda>q. status_401) universalQuery)
   \<and> getProjects (\<lambda>q. status_401) =
       ([Post universalQuery, Shown auth_failed_message], Inr (JArr []))
   \<and> shown_by (getProjects (\<lambda>q. status_401)) = [auth_failed_message]
   \<and> graphql_errors ((\<lambda>q. Inr unauthorized_body) universalQuery)
   \<and> unauthorized_graphql ((\<lambda>q. Inr unauthorized_body) personalQuery)
   \<and> getProjects (\<lambda>q. Inr unauthorized_body) =
       ([Post universalQuery, Post personalQuery], Inr (JArr []))"
proof -
  have h1: "unauthorized_http ((\<lambda>q. status_401) universalQuery)"
    by (simp add: unauthorized_http_def http_status_def status_401_def)
  have h2: "graphql_errors ((\<lambda>q. Inr unauthorized_body) universalQuery)"
    by (simp add: graphql_errors_def errors_present_def unauthorized_body_def js_opt_def)
  have h3: "unauthorized_graphql ((\<lambda>q. Inr unauthorized_body) personalQuery)"
    by code_simp
  have c1: "getProjects (\<lambda>q. status_401) =
       ([Post universalQuery, Shown auth_failed_message], Inr (JArr []))"
    using h1 getProjects_unauthorized [of "\<lambda>q. status_401"] by blast
  have c2: "getProjects (\<lambda>q. Inr unauthorized_body) =
       ([Post universalQuery, Post personalQuery], Inr (JArr []))"
    using h2 h3 getProjects_unauthorized [of "\<lambda>q. Inr unauthorized_body"] by blast
  have c3: "shown_by (getProjects (\<lambda>q. status_401)) = [auth_failed_message]"
    by (simp add: c1 shown_by_def)
  show ?thesis using h1 h2 h3 c1 c2 c3 by blast
qed

end
